theory Spec2Isabelle
  imports Complex_Main "HOL-Library.Log_Nat" "HOL-Library.Word"
begin

section \<open>JavaScript numbers\<close>

text \<open>
  The library stores a duration as one JavaScript \<^verbatim>\<open>number\<close>, an IEEE 754 binary64
  value. A number is modelled as NaN, a signed infinity, or a sign and a magnitude: the
  sign is \<open>True\<close> for negative values (so that \<open>-0\<close> is \<open>Fin True 0\<close>) and the
  magnitude is the exact rational value of the double. Every arithmetic operation computes
  the exact rational result and rounds it to the nearest double, ties to even, as the
  language prescribes.
\<close>

datatype number = NaN | Infinity bool | Fin bool rat

definition pow2 :: "int \<Rightarrow> rat" where
  "pow2 k = (if 0 \<le> k then 2 ^ nat k else 1 / 2 ^ nat (- k))"

text \<open>\<open>ilog2 q\<close> is the integer \<open>k\<close> with \<open>2^k \<le> q < 2^(k+1)\<close>, for \<open>q > 0\<close>.\<close>

definition ilog2 :: "rat \<Rightarrow> int" where
  "ilog2 q = (if 1 \<le> q then bitlen \<lfloor>q\<rfloor> - 1 else - bitlen (\<lceil>1 / q\<rceil> - 1))"

definition round_half_even :: "rat \<Rightarrow> int" where
  "round_half_even x =
     (let f = \<lfloor>x\<rfloor>; r = x - of_int f
      in if r < 1 / 2 then f else if 1 / 2 < r then f + 1 else if even f then f else f + 1)"

text \<open>
  Rounding of a non-negative rational to binary64: the significand has 53 bits, the
  exponent of the last bit is at least \<open>-1074\<close> (subnormal numbers), and a result of
  \<open>2^1024\<close> or more overflows (\<open>None\<close>).
\<close>

definition round64 :: "rat \<Rightarrow> rat option" where
  "round64 q =
     (if q = 0 then Some 0
      else let e = max (ilog2 q - 52) (- 1074);
               r = of_int (round_half_even (q / pow2 e)) * pow2 e
           in if pow2 1024 \<le> r then None else Some r)"

definition mk :: "bool \<Rightarrow> rat \<Rightarrow> number" where
  "mk s q = (case round64 q of None \<Rightarrow> Infinity s | Some r \<Rightarrow> Fin s r)"


fun val :: "number \<Rightarrow> rat" where
  "val (Fin s q) = (if s then - q else q)"
| "val _ = 0"

fun neg :: "number \<Rightarrow> number" where
  "neg NaN = NaN"
| "neg (Infinity s) = Infinity (\<not> s)"
| "neg (Fin s q) = Fin (\<not> s) q"

fun js_add :: "number \<Rightarrow> number \<Rightarrow> number" where
  "js_add NaN y = NaN"
| "js_add x NaN = NaN"
| "js_add (Infinity s) (Infinity t) = (if s = t then Infinity s else NaN)"
| "js_add (Infinity s) (Fin t b) = Infinity s"
| "js_add (Fin s a) (Infinity t) = Infinity t"
| "js_add (Fin s a) (Fin t b) =
     (let v = val (Fin s a) + val (Fin t b)
      in if v = 0 then Fin (s \<and> t) 0 else mk (v < 0) \<bar>v\<bar>)"

definition js_sub :: "number \<Rightarrow> number \<Rightarrow> number" where
  "js_sub x y = js_add x (neg y)"

fun js_mul :: "number \<Rightarrow> number \<Rightarrow> number" where
  "js_mul NaN y = NaN"
| "js_mul x NaN = NaN"
| "js_mul (Infinity s) (Infinity t) = Infinity (s \<noteq> t)"
| "js_mul (Infinity s) (Fin t b) = (if b = 0 then NaN else Infinity (s \<noteq> t))"
| "js_mul (Fin s a) (Infinity t) = (if a = 0 then NaN else Infinity (s \<noteq> t))"
| "js_mul (Fin s a) (Fin t b) = mk (s \<noteq> t) (a * b)"

fun js_div :: "number \<Rightarrow> number \<Rightarrow> number" where
  "js_div NaN y = NaN"
| "js_div x NaN = NaN"
| "js_div (Infinity s) (Infinity t) = NaN"
| "js_div (Infinity s) (Fin t b) = Infinity (s \<noteq> t)"
| "js_div (Fin s a) (Infinity t) = Fin (s \<noteq> t) 0"
| "js_div (Fin s a) (Fin t b) =
     (if b = 0 then (if a = 0 then NaN else Infinity (s \<noteq> t)) else mk (s \<noteq> t) (a / b))"

text \<open>The comparisons \<^verbatim>\<open>===\<close>, \<^verbatim>\<open><\<close>, \<^verbatim>\<open>>\<close>, \<^verbatim>\<open><=\<close>, \<^verbatim>\<open>>=\<close> on numbers: every comparison with NaN is false.\<close>

fun js_strict_eq :: "number \<Rightarrow> number \<Rightarrow> bool" where
  "js_strict_eq NaN y = False"
| "js_strict_eq x NaN = False"
| "js_strict_eq (Infinity s) (Infinity t) = (s = t)"
| "js_strict_eq (Infinity s) (Fin t b) = False"
| "js_strict_eq (Fin s a) (Infinity t) = False"
| "js_strict_eq (Fin s a) (Fin t b) = (val (Fin s a) = val (Fin t b))"

fun js_lt :: "number \<Rightarrow> number \<Rightarrow> bool" where
  "js_lt NaN y = False"
| "js_lt x NaN = False"
| "js_lt (Infinity s) (Infinity t) = (s \<and> \<not> t)"
| "js_lt (Infinity s) (Fin t b) = s"
| "js_lt (Fin s a) (Infinity t) = (\<not> t)"
| "js_lt (Fin s a) (Fin t b) = (val (Fin s a) < val (Fin t b))"

definition js_gt :: "number \<Rightarrow> number \<Rightarrow> bool" where
  "js_gt x y = js_lt y x"

definition js_le :: "number \<Rightarrow> number \<Rightarrow> bool" where
  "js_le x y = (js_lt x y \<or> js_strict_eq x y)"

definition js_ge :: "number \<Rightarrow> number \<Rightarrow> bool" where
  "js_ge x y = (js_lt y x \<or> js_strict_eq x y)"

text \<open>The numbers that are \<open>+0\<close> or more, plus infinity included.\<close>

fun nonneg :: "number \<Rightarrow> bool" where
  "nonneg NaN = False"
| "nonneg (Infinity s) = (\<not> s)"
| "nonneg (Fin s q) = (\<not> s \<and> 0 \<le> q)"

definition num :: "rat \<Rightarrow> number" where
  "num q = Fin (q < 0) \<bar>q\<bar>"

text \<open>
  \<^verbatim>\<open>Math.floor\<close>, \<^verbatim>\<open>Math.ceil\<close>, \<^verbatim>\<open>Math.round\<close> and \<^verbatim>\<open>Math.abs\<close>. The integer nearest to a
  double in the required direction is a double, so no rounding step follows.
  \<^verbatim>\<open>Math.round\<close> takes a tie to the integer closer to plus infinity, and keeps the sign of
  its argument on a zero result.
\<close>

fun Math_floor :: "number \<Rightarrow> number" where
  "Math_floor NaN = NaN"
| "Math_floor (Infinity s) = Infinity s"
| "Math_floor (Fin s q) =
     (let f = \<lfloor>val (Fin s q)\<rfloor> in if q = 0 then Fin s 0 else Fin (f < 0) (of_int \<bar>f\<bar>))"



fun Math_abs :: "number \<Rightarrow> number" where
  "Math_abs NaN = NaN"
| "Math_abs (Infinity s) = Infinity False"
| "Math_abs (Fin s q) = Fin False q"

fun Number_isInteger :: "number \<Rightarrow> bool" where
  "Number_isInteger (Fin s q) = (of_int \<lfloor>q\<rfloor> = q)"
| "Number_isInteger _ = False"

section \<open>JavaScript strings\<close>

text \<open>
  A string is a sequence of 16-bit code units. \<open>str\<close> turns a literal of the theory
  (ASCII) into a string of the program.
\<close>

type_synonym js_string = "16 word list"

definition str :: "string \<Rightarrow> js_string" where
  "str s = map of_char s"

definition is_digit :: "16 word \<Rightarrow> bool" where
  "is_digit c = (0x30 \<le> c \<and> c \<le> 0x39)"

definition digit_val :: "16 word \<Rightarrow> nat" where
  "digit_val c = unat c - 48"

definition digits_val :: "js_string \<Rightarrow> nat" where
  "digits_val ds = foldl (\<lambda>a c. 10 * a + digit_val c) 0 ds"

text \<open>White space and line terminators: what \<^verbatim>\<open>trim\<close> removes and \<^verbatim>\<open>\s\<close> matches.\<close>

definition is_white_space :: "16 word \<Rightarrow> bool" where
  "is_white_space c =
     (c \<in> set [0x09, 0x0A, 0x0B, 0x0C, 0x0D, 0x20, 0xA0, 0x1680, 0x2028, 0x2029, 0x202F,
                0x205F, 0x3000, 0xFEFF]
      \<or> (0x2000 \<le> c \<and> c \<le> 0x200A))"

definition trimStart :: "js_string \<Rightarrow> js_string" where
  "trimStart s = dropWhile is_white_space s"

definition trim :: "js_string \<Rightarrow> js_string" where
  "trim s = rev (dropWhile is_white_space (rev (dropWhile is_white_space s)))"

text \<open>
  \<^verbatim>\<open>toLowerCase\<close> on the ASCII letters; the other code units are left as they are (the
  scanner below captures ASCII letters only).
\<close>

definition toLowerCase :: "js_string \<Rightarrow> js_string" where
  "toLowerCase s = map (\<lambda>c. if 0x41 \<le> c \<and> c \<le> 0x5A then c + 0x20 else c) s"

fun join :: "js_string \<Rightarrow> js_string list \<Rightarrow> js_string" where
  "join sep [] = []"
| "join sep [x] = x"
| "join sep (x # y # ys) = x @ sep @ join sep (y # ys)"

fun digits :: "nat \<Rightarrow> js_string" where
  "digits n = (if n < 10 then [of_nat (48 + n)] else digits (n div 10) @ [of_nat (48 + n mod 10)])"

section \<open>Numbers to strings and back\<close>

definition pow10 :: "int \<Rightarrow> rat" where
  "pow10 k = (if 0 \<le> k then 10 ^ nat k else 1 / 10 ^ nat (- k))"

text \<open>\<open>ilog10 q\<close> is the integer \<open>k\<close> with \<open>10^k \<le> q < 10^(k+1)\<close>, for \<open>q > 0\<close>.\<close>

definition ilog10 :: "rat \<Rightarrow> int" where
  "ilog10 q =
     (if 1 \<le> q then int (floorlog 10 (nat \<lfloor>q\<rfloor>)) - 1
      else - int (floorlog 10 (nat (\<lceil>1 / q\<rceil> - 1))))"

text \<open>
  \<^verbatim>\<open>Number::toString\<close> writes a finite non-zero \<open>x\<close> with the digits of the integer \<open>s\<close>
  of \<open>k\<close> digits, \<open>k\<close> as small as possible, such that \<open>s * 10^(n - k)\<close> rounds to \<open>x\<close>;
  among several \<open>s\<close> the one closest to \<open>x\<close>, the even one on a tie. With
  \<open>10^(n - 1) \<le> x < 10^n\<close>, only the two integers around \<open>x / 10^(n - k)\<close> can be that
  \<open>s\<close>; the upper one may be \<open>10^k\<close>, which is written \<open>10^(k - 1)\<close> with \<open>n + 1\<close>.
\<close>

definition digit_candidate :: "rat \<Rightarrow> nat \<Rightarrow> (int \<times> nat) option" where
  "digit_candidate x k =
     (let n = ilog10 x + 1; e = n - int k;
          lo = nat \<lfloor>x / pow10 e\<rfloor>; hi = lo + 1;
          ok_lo = (round64 (of_nat lo * pow10 e) = Some x);
          ok_hi = (round64 (of_nat hi * pow10 e) = Some x);
          s = (if ok_lo \<and> ok_hi
               then (if x - of_nat lo * pow10 e < of_nat hi * pow10 e - x then lo
                     else if of_nat hi * pow10 e - x < x - of_nat lo * pow10 e then hi
                     else if even lo then lo else hi)
               else if ok_lo then lo else hi)
      in if ok_lo \<or> ok_hi
         then Some (if s = 10 ^ k then (n + 1, 10 ^ (k - 1)) else (n, s))
         else None)"

text \<open>
  The search for the smallest \<open>k\<close>, from \<open>k\<close> upwards for \<open>j\<close> steps. Seventeen digits
  always identify a double; the last equation writes the nearest integer of 17 digits.
\<close>

fun shortest_from :: "rat \<Rightarrow> nat \<Rightarrow> nat \<Rightarrow> int \<times> nat \<times> nat" where
  "shortest_from x k 0 =
     (ilog10 x + 1, k, nat (round_half_even (x / pow10 (ilog10 x + 1 - int k))))"
| "shortest_from x k (Suc j) =
     (case digit_candidate x k of
        Some (n, s) \<Rightarrow> (n, k, s)
      | None \<Rightarrow> shortest_from x (Suc k) j)"

definition shortest :: "rat \<Rightarrow> int \<times> nat \<times> nat" where
  "shortest x = shortest_from x 1 16"

definition render :: "int \<times> nat \<times> nat \<Rightarrow> js_string" where
  "render t =
     (case t of (n, k, s) \<Rightarrow>
        let ds = digits s;
            ex = (if n - 1 < 0 then str ''-'' else str ''+'') @ digits (nat \<bar>n - 1\<bar>)
        in if int k \<le> n \<and> n \<le> 21 then ds @ replicate (nat (n - int k)) (of_char CHR ''0'')
           else if 0 < n \<and> n \<le> 21 then take (nat n) ds @ str ''.'' @ drop (nat n) ds
           else if - 6 < n \<and> n \<le> 0
             then str ''0.'' @ replicate (nat (- n)) (of_char CHR ''0'') @ ds
           else if k = 1 then ds @ str ''e'' @ ex
           else take 1 ds @ str ''.'' @ drop 1 ds @ str ''e'' @ ex)"

text \<open>\<^verbatim>\<open>String(x)\<close> and \<^verbatim>\<open>`${x}`\<close> on a number \<open>x\<close>.\<close>

fun Number_toString :: "number \<Rightarrow> js_string" where
  "Number_toString NaN = str ''NaN''"
| "Number_toString (Infinity s) = (if s then str ''-Infinity'' else str ''Infinity'')"
| "Number_toString (Fin s q) =
     (if q = 0 then str ''0'' else (if s then str ''-'' else []) @ render (shortest q))"

text \<open>
  \<^verbatim>\<open>x.toFixed(f)\<close>: the integer \<open>n\<close> nearest to \<open>x * 10^f\<close>, the larger one on a tie,
  written with the point before its last \<open>f\<close> digits.
\<close>

fun toFixed :: "number \<Rightarrow> nat \<Rightarrow> js_string" where
  "toFixed NaN f = Number_toString NaN"
| "toFixed (Infinity s) f = Number_toString (Infinity s)"
| "toFixed (Fin s q) f =
     (if s \<and> q \<noteq> 0 then str ''-'' else []) @
     (if 10 ^ 21 \<le> q then Number_toString (Fin False q)
      else let m = digits (nat \<lfloor>q * 10 ^ f + 1 / 2\<rfloor>);
               z = (if length m \<le> f then replicate (f + 1 - length m) (of_char CHR ''0'') @ m
                    else m)
           in if f = 0 then m
              else take (length z - f) z @ str ''.'' @ drop (length z - f) z)"

text \<open>
  The decimal literals of \<^verbatim>\<open>parseFloat\<close> and \<^verbatim>\<open>Number(string)\<close>: \<^verbatim>\<open>Infinity\<close>, or digits
  with an optional fraction and an optional exponent, or a fraction alone. The value of
  a literal is its exact decimal value rounded to the nearest double.
\<close>

definition parse_exponent :: "js_string \<Rightarrow> int \<times> js_string" where
  "parse_exponent s =
     (case s of
        [] \<Rightarrow> (0, s)
      | c # r \<Rightarrow>
          if c = of_char CHR ''e'' \<or> c = of_char CHR ''E'' then
            (let minus = (r \<noteq> [] \<and> hd r = of_char CHR ''-'');
                 plus = (r \<noteq> [] \<and> hd r = of_char CHR ''+'');
                 r' = (if minus \<or> plus then tl r else r);
                 ds = takeWhile is_digit r'
             in if ds = [] then (0, s)
                else ((if minus then - int (digits_val ds) else int (digits_val ds)),
                      dropWhile is_digit r'))
          else (0, s))"

definition parse_unsigned :: "js_string \<Rightarrow> (number \<times> js_string) option" where
  "parse_unsigned s =
     (if take 8 s = str ''Infinity'' then Some (Infinity False, drop 8 s)
      else let ip = takeWhile is_digit s; r1 = dropWhile is_digit s;
               dot = (r1 \<noteq> [] \<and> hd r1 = of_char CHR ''.'');
               fp = (if dot then takeWhile is_digit (tl r1) else []);
               r2 = (if dot then dropWhile is_digit (tl r1) else r1)
           in if ip = [] \<and> fp = [] then None
              else (case parse_exponent r2 of (ex, r3) \<Rightarrow>
                Some (mk False (of_nat (digits_val (ip @ fp)) * pow10 (ex - int (length fp))),
                      r3)))"

definition parse_signed :: "js_string \<Rightarrow> (number \<times> js_string) option" where
  "parse_signed s =
     (if s \<noteq> [] \<and> hd s = of_char CHR ''+'' then parse_unsigned (tl s)
      else if s \<noteq> [] \<and> hd s = of_char CHR ''-''
        then map_option (\<lambda>(v, r). (neg v, r)) (parse_unsigned (tl s))
      else parse_unsigned s)"

definition parseFloat :: "js_string \<Rightarrow> number" where
  "parseFloat s = (case parse_signed (trimStart s) of None \<Rightarrow> NaN | Some (v, r) \<Rightarrow> v)"

text \<open>
  \<^verbatim>\<open>Number(string)\<close>: the whole trimmed string must be one literal; the empty string is
  \<open>0\<close>. The literals with a radix prefix (\<^verbatim>\<open>0x\<close>, \<^verbatim>\<open>0o\<close>, \<^verbatim>\<open>0b\<close>) are integers.
\<close>

definition radix_digit :: "16 word \<Rightarrow> nat" where
  "radix_digit c =
     (if is_digit c then digit_val c
      else if 0x61 \<le> c \<and> c \<le> 0x66 then unat c - 87
      else if 0x41 \<le> c \<and> c \<le> 0x46 then unat c - 55
      else 16)"

definition parse_radix :: "nat \<Rightarrow> js_string \<Rightarrow> number" where
  "parse_radix b ds =
     (if ds \<noteq> [] \<and> list_all (\<lambda>c. radix_digit c < b) ds
      then mk False (of_nat (foldl (\<lambda>a c. b * a + radix_digit c) 0 ds))
      else NaN)"

definition StringToNumber :: "js_string \<Rightarrow> number" where
  "StringToNumber s =
     (let t = trim s; p = take 2 t
      in if t = [] then Fin False 0
         else if p = str ''0x'' \<or> p = str ''0X'' then parse_radix 16 (drop 2 t)
         else if p = str ''0o'' \<or> p = str ''0O'' then parse_radix 8 (drop 2 t)
         else if p = str ''0b'' \<or> p = str ''0B'' then parse_radix 2 (drop 2 t)
         else (case parse_signed t of
                 None \<Rightarrow> NaN
               | Some (v, r) \<Rightarrow> if r = [] then v else NaN))"

section \<open>The Duration class\<close>

record Duration =
  milliseconds :: number

datatype error =
    EmptyInput
  | NoTokensFound
  | DuplicateUnit js_string
  | UnexpectedTrailingInput js_string
  | DivisionByZero
  | UnsupportedUnit js_string
  | TypeError

definition MS_PER_SECOND :: number where "MS_PER_SECOND = num 1000"
definition MS_PER_MINUTE :: number where "MS_PER_MINUTE = js_mul (num 60) MS_PER_SECOND"
definition MS_PER_HOUR :: number where "MS_PER_HOUR = js_mul (num 60) MS_PER_MINUTE"
definition MS_PER_DAY :: number where "MS_PER_DAY = js_mul (num 24) MS_PER_HOUR"
definition MS_PER_WEEK :: number where "MS_PER_WEEK = js_mul (num 7) MS_PER_DAY"
definition MS_PER_MONTH :: number where "MS_PER_MONTH = js_mul (num 30) MS_PER_DAY"
definition MS_PER_YEAR :: number where "MS_PER_YEAR = js_mul (num 365) MS_PER_DAY"

definition ms :: "Duration \<Rightarrow> number" where
  "ms d = milliseconds d"

definition add :: "Duration \<Rightarrow> Duration \<Rightarrow> Duration" where
  "add d other = \<lparr>milliseconds = js_add (milliseconds d) (ms other)\<rparr>"


definition mul :: "Duration \<Rightarrow> number \<Rightarrow> Duration" where
  "mul d factor = \<lparr>milliseconds = js_mul (milliseconds d) factor\<rparr>"

definition div_by :: "Duration \<Rightarrow> number \<Rightarrow> error + Duration" where
  "div_by d divisor =
     (if js_strict_eq divisor (num 0) then Inl DivisionByZero
      else Inr \<lparr>milliseconds = js_div (milliseconds d) divisor\<rparr>)"

definition eq :: "Duration \<Rightarrow> Duration \<Rightarrow> bool" where
  "eq d other = js_strict_eq (milliseconds d) (ms other)"

definition lt :: "Duration \<Rightarrow> Duration \<Rightarrow> bool" where
  "lt d other = js_lt (milliseconds d) (ms other)"

definition gt :: "Duration \<Rightarrow> Duration \<Rightarrow> bool" where
  "gt d other = js_gt (milliseconds d) (ms other)"

definition lte :: "Duration \<Rightarrow> Duration \<Rightarrow> bool" where
  "lte d other = js_le (milliseconds d) (ms other)"

definition gte :: "Duration \<Rightarrow> Duration \<Rightarrow> bool" where
  "gte d other = js_ge (milliseconds d) (ms other)"

definition isZero :: "Duration \<Rightarrow> bool" where
  "isZero d = js_strict_eq (milliseconds d) (num 0)"

definition abs_duration :: "Duration \<Rightarrow> Duration" where
  "abs_duration d = \<lparr>milliseconds = Math_abs (milliseconds d)\<rparr>"

subsection \<open>Factories\<close>

definition Duration_ms :: "number \<Rightarrow> Duration" where
  "Duration_ms n = \<lparr>milliseconds = n\<rparr>"








subsection \<open>Conversion with rounding\<close>















subsection \<open>Formatting\<close>

definition FORMAT_UNITS :: "(js_string \<times> number) list" where
  "FORMAT_UNITS =
     [(str ''y'', MS_PER_YEAR), (str ''mo'', MS_PER_MONTH), (str ''w'', MS_PER_WEEK),
      (str ''d'', MS_PER_DAY), (str ''h'', MS_PER_HOUR), (str ''m'', MS_PER_MINUTE),
      (str ''s'', MS_PER_SECOND), (str ''ms'', num 1)]"

definition formatNumber :: "number \<Rightarrow> js_string" where
  "formatNumber value =
     (if Number_isInteger value then Number_toString value
      else Number_toString (StringToNumber (toFixed value 6)))"

text \<open>
  The loop of \<^verbatim>\<open>format\<close> over the unit table, with the variables \<^verbatim>\<open>remaining\<close> and
  \<^verbatim>\<open>parts\<close> as arguments; the entry labelled \<^verbatim>\<open>ms\<close> ends the loop.
\<close>

fun format_loop :: "(js_string \<times> number) list \<Rightarrow> number \<Rightarrow> js_string list \<Rightarrow> js_string list" where
  "format_loop [] remaining parts = parts"
| "format_loop ((label, unit_ms) # units) remaining parts =
     (if label = str ''ms''
      then (if js_gt remaining (num 0) then parts @ [formatNumber remaining @ str ''ms'']
            else parts)
      else let value = Math_floor (js_div remaining unit_ms)
           in if js_gt value (num 0)
              then format_loop units (js_sub remaining (js_mul value unit_ms))
                     (parts @ [Number_toString value @ label])
              else format_loop units remaining parts)"

definition format :: "Duration \<Rightarrow> js_string" where
  "format d =
     (if js_strict_eq (milliseconds d) (num 0) then str ''0ms''
      else let sign = (if js_lt (milliseconds d) (num 0) then str ''-'' else []);
               remaining = Math_abs (milliseconds d)
           in sign @ join (str '' '') (format_loop FORMAT_UNITS remaining []))"






subsection \<open>Parsing\<close>

text \<open>
  The regular expressions that the scanner needs, with the backtracking semantics of the
  language: \<open>ways r (s, m)\<close> lists, in the order in which backtracking tries them, the
  ways to match \<open>r\<close> at the front of \<open>s\<close>, each as the input left over and the captures
  (\<open>m\<close> extended by the groups matched). The first way is the match. Under the flag
  \<^verbatim>\<open>i\<close> a pattern character and an input character match when their canonical forms
  (upper case) are equal; a code unit outside ASCII never has an ASCII canonical form.
  A greedy star tries one more iteration first, and gives up an iteration that consumes
  nothing.
\<close>

datatype regex =
    Digit
  | Space
  | Chr "16 word"
  | Eps
  | Seq regex regex
  | Alt regex regex
  | Star regex
  | Group nat regex

definition canonicalize :: "16 word \<Rightarrow> 16 word" where
  "canonicalize c = (if 0x61 \<le> c \<and> c \<le> 0x7A then c - 0x20 else c)"

type_synonym match_state = "js_string \<times> (nat \<Rightarrow> js_string option)"

fun ways :: "regex \<Rightarrow> match_state \<Rightarrow> match_state list" where
  "ways Digit (s, m) = (case s of [] \<Rightarrow> [] | c # r \<Rightarrow> if is_digit c then [(r, m)] else [])"
| "ways Space (s, m) =
     (case s of [] \<Rightarrow> [] | c # r \<Rightarrow> if is_white_space c then [(r, m)] else [])"
| "ways (Chr p) (s, m) =
     (case s of [] \<Rightarrow> [] | c # r \<Rightarrow> if canonicalize c = canonicalize p then [(r, m)] else [])"
| "ways Eps (s, m) = [(s, m)]"
| "ways (Seq a b) (s, m) = concat (map (ways b) (ways a (s, m)))"
| "ways (Alt a b) (s, m) = ways a (s, m) @ ways b (s, m)"
| "ways (Star a) (s, m) =
     concat (map (\<lambda>st. if length (fst st) < length s then ways (Star a) st else [])
               (ways a (s, m)))
     @ [(s, m)]"
| "ways (Group i a) (s, m) =
     map (\<lambda>st. (fst st, (snd st)(i \<mapsto> take (length s - length (fst st)) s))) (ways a (s, m))"

text \<open>The groups of a pattern; the captures of the other groups are left as they are.\<close>

fun groups :: "regex \<Rightarrow> nat set" where
  "groups (Seq a b) = groups a \<union> groups b"
| "groups (Alt a b) = groups a \<union> groups b"
| "groups (Star a) = groups a"
| "groups (Group i a) = insert i (groups a)"
| "groups _ = {}"

definition Plus :: "regex \<Rightarrow> regex" where
  "Plus r = Seq r (Star r)"

definition Opt :: "regex \<Rightarrow> regex" where
  "Opt r = Alt r Eps"

definition lit :: "string \<Rightarrow> regex" where
  "lit cs = foldr (\<lambda>c r. Seq (Chr (of_char c)) r) cs Eps"

text \<open>
  The pattern \<^verbatim>\<open>/(\d+(?:\.\d+)?)\s*(ms|s|m|h|d|w|mo|y)/gi\<close>, with names for what its
  two groups hold.
\<close>

definition NUMERIC_VALUE :: regex where
  "NUMERIC_VALUE = Seq (Plus Digit) (Opt (Seq (Chr (of_char CHR ''.'')) (Plus Digit)))"

definition UNIT_LABEL :: regex where
  "UNIT_LABEL =
     Alt (lit ''ms'') (Alt (lit ''s'') (Alt (lit ''m'') (Alt (lit ''h'')
       (Alt (lit ''d'') (Alt (lit ''w'') (Alt (lit ''mo'') (lit ''y'')))))))"

definition PARSE_REGEX :: regex where
  "PARSE_REGEX = Seq (Group 1 NUMERIC_VALUE) (Seq (Star Space) (Group 2 UNIT_LABEL))"

text \<open>The unit labels, in the order of the \<^verbatim>\<open>switch\<close> of \<^verbatim>\<open>#unitToMilliseconds\<close>.\<close>

definition UNIT_LABELS :: "js_string list" where
  "UNIT_LABELS = map str [''ms'', ''s'', ''m'', ''h'', ''d'', ''w'', ''mo'', ''y'']"

definition unitToMilliseconds :: "js_string \<Rightarrow> error + number" where
  "unitToMilliseconds unit =
     (if unit = str ''ms'' then Inr (num 1)
      else if unit = str ''s'' then Inr MS_PER_SECOND
      else if unit = str ''m'' then Inr MS_PER_MINUTE
      else if unit = str ''h'' then Inr MS_PER_HOUR
      else if unit = str ''d'' then Inr MS_PER_DAY
      else if unit = str ''w'' then Inr MS_PER_WEEK
      else if unit = str ''mo'' then Inr MS_PER_MONTH
      else if unit = str ''y'' then Inr MS_PER_YEAR
      else Inl (UnsupportedUnit unit))"

text \<open>
  The options of \<^verbatim>\<open>parse\<close> (a field that is \<open>None\<close> is \<^verbatim>\<open>undefined\<close> and takes its
  default), and the variables that the replacement callback updates.
\<close>

record ParseOptions =
  strict :: "bool option"
  allowPartial :: "bool option"

definition default_options :: ParseOptions where
  "default_options = \<lparr>strict = None, allowPartial = None\<rparr>"

record parse_state =
  matched :: bool
  seenUnits :: "js_string set"
  totalMilliseconds :: number

text \<open>
  The callback of \<^verbatim>\<open>replace\<close>, applied to the captures of one match: it returns the
  replacement text and the updated variables, or the error it throws. A group that did
  not take part in the match is \<^verbatim>\<open>undefined\<close>: \<^verbatim>\<open>parseFloat\<close> makes it NaN, and a
  method call on it is a \<^verbatim>\<open>TypeError\<close>.
\<close>

definition callback ::
  "bool \<Rightarrow> (nat \<Rightarrow> js_string option) \<Rightarrow> parse_state \<Rightarrow> error + (js_string \<times> parse_state)" where
  "callback strict_mode caps st =
     (let value = (case caps 1 of None \<Rightarrow> NaN | Some rawValue \<Rightarrow> parseFloat rawValue)
      in case caps 2 of
           None \<Rightarrow> Inl TypeError
         | Some rawUnit \<Rightarrow>
             let unit = toLowerCase rawUnit
             in if strict_mode \<and> unit \<in> seenUnits st then Inl (DuplicateUnit unit)
                else (case unitToMilliseconds unit of
                        Inl e \<Rightarrow> Inl e
                      | Inr ratio \<Rightarrow>
                          Inr (str '' '',
                               \<lparr>matched = True, seenUnits = insert unit (seenUnits st),
                                totalMilliseconds =
                                  js_add (totalMilliseconds st) (js_mul value ratio)\<rparr>)))"

text \<open>
  \<^verbatim>\<open>input.replace(regex, callback)\<close> with the flag \<^verbatim>\<open>g\<close>: at each position the pattern
  is tried; a match is replaced by what the callback returns and the scan goes on after
  it (one character further when the match is empty), and a character at which nothing
  matches is copied.
\<close>

fun replace_loop ::
  "bool \<Rightarrow> js_string \<Rightarrow> parse_state \<Rightarrow> error + (js_string \<times> parse_state)" where
  "replace_loop strict_mode s st =
     (case ways PARSE_REGEX (s, Map.empty) of
        [] \<Rightarrow>
          (case s of
             [] \<Rightarrow> Inr ([], st)
           | c # cs \<Rightarrow>
               (case replace_loop strict_mode cs st of
                  Inl e \<Rightarrow> Inl e
                | Inr (out, st') \<Rightarrow> Inr (c # out, st')))
      | (rest, caps) # other \<Rightarrow>
          (case callback strict_mode caps st of
             Inl e \<Rightarrow> Inl e
           | Inr (replacement, st') \<Rightarrow>
               if length rest < length s
               then (case replace_loop strict_mode rest st' of
                       Inl e \<Rightarrow> Inl e
                     | Inr (out, st'') \<Rightarrow> Inr (replacement @ out, st''))
               else (case s of
                       [] \<Rightarrow> Inr (replacement, st')
                     | c # cs \<Rightarrow>
                         (case replace_loop strict_mode cs st' of
                            Inl e \<Rightarrow> Inl e
                          | Inr (out, st'') \<Rightarrow> Inr (replacement @ c # out, st'')))))"

definition parse :: "js_string \<Rightarrow> ParseOptions \<Rightarrow> error + Duration" where
  "parse input options =
     (let strict_mode = (case strict options of None \<Rightarrow> True | Some b \<Rightarrow> b);
          allow = (case allowPartial options of None \<Rightarrow> False | Some b \<Rightarrow> b);
          normalized = trim input
      in if length normalized = 0 then Inl EmptyInput
         else (case replace_loop strict_mode input
                      \<lparr>matched = False, seenUnits = {}, totalMilliseconds = num 0\<rparr> of
                 Inl e \<Rightarrow> Inl e
               | Inr (remainder, st) \<Rightarrow>
                   if \<not> matched st then Inl NoTokensFound
                   else if \<not> allow \<and> 0 < length (trim remainder)
                     then Inl (UnexpectedTrailingInput (trim remainder))
                   else Inr \<lparr>milliseconds = totalMilliseconds st\<rparr>))"

section \<open>Evaluation of the number model\<close>

declare replace_loop.simps [simp del]
declare digits.simps [simp del]
declare ways.simps(7) [simp del]

lemma bitlen_numeral: "bitlen (numeral n) = bitlen (numeral n div 2) + 1"
  by (subst compute_bitlen) simp

lemma bitlen_one: "bitlen 1 = 1"
  by (subst compute_bitlen) simp

lemma floor_rat_numeral_div: "\<lfloor>(numeral a :: rat) / numeral b\<rfloor> = numeral a div numeral b"
  using floor_divide_of_int_eq [of "numeral a" "numeral b", where ?'a = rat] by simp

lemma ceiling_rat_numeral_div: "\<lceil>(numeral a :: rat) / numeral b\<rceil> = - (- numeral a div numeral b)"
  using ceiling_divide_eq_div [of "numeral a" "numeral b", where ?'a = rat] by simp

lemmas round64_eval = round64_def ilog2_def pow2_def round_half_even_def Let_def
  bitlen_numeral bitlen_one floor_rat_numeral_div ceiling_rat_numeral_div

lemma ms_consts: "MS_PER_SECOND = num 1000" "MS_PER_MINUTE = num 60000" "MS_PER_HOUR = num 3600000"
  "MS_PER_DAY = num 86400000" "MS_PER_WEEK = num 604800000" "MS_PER_MONTH = num 2592000000"
  "MS_PER_YEAR = num 31536000000"
  by (simp_all add: MS_PER_SECOND_def MS_PER_MINUTE_def MS_PER_HOUR_def MS_PER_DAY_def
       MS_PER_WEEK_def MS_PER_MONTH_def MS_PER_YEAR_def num_def mk_def round64_eval)

section \<open>Comparison and arithmetic\<close>

text \<open>
  Claim C4, amended. For every pair of durations whose millisecond values are not NaN,
  exactly one of \<open>lt\<close>, \<open>eq\<close>, \<open>gt\<close> holds. (With a NaN value all three are false.)
\<close>

theorem comparison_trichotomy:
  assumes "ms a \<noteq> NaN" and "ms b \<noteq> NaN"
  shows "(lt a b \<and> \<not> eq a b \<and> \<not> gt a b) \<or> (\<not> lt a b \<and> eq a b \<and> \<not> gt a b)
       \<or> (\<not> lt a b \<and> \<not> eq a b \<and> gt a b)"
proof -
  obtain x y where x: "milliseconds a = x" and y: "milliseconds b = y"
    by simp
  from assms have "x \<noteq> NaN" "y \<noteq> NaN"
    using x y by (simp_all add: ms_def)
  then have "(js_lt x y \<and> \<not> js_strict_eq x y \<and> \<not> js_lt y x)
      \<or> (\<not> js_lt x y \<and> js_strict_eq x y \<and> \<not> js_lt y x)
      \<or> (\<not> js_lt x y \<and> \<not> js_strict_eq x y \<and> js_lt y x)"
    by (cases x; cases y) auto
  then show ?thesis
    by (simp add: lt_def eq_def gt_def js_gt_def ms_def x y)
qed

theorem comparison_trichotomy_witness:
  "ms \<lparr>milliseconds = num 1\<rparr> \<noteq> NaN \<and> ms \<lparr>milliseconds = num 2\<rparr> \<noteq> NaN
   \<and> lt \<lparr>milliseconds = num 1\<rparr> \<lparr>milliseconds = num 2\<rparr>
   \<and> \<not> eq \<lparr>milliseconds = num 1\<rparr> \<lparr>milliseconds = num 2\<rparr>
   \<and> \<not> gt \<lparr>milliseconds = num 1\<rparr> \<lparr>milliseconds = num 2\<rparr>"
  using comparison_trichotomy [of "\<lparr>milliseconds = num 1\<rparr>" "\<lparr>milliseconds = num 2\<rparr>"]
  by (simp add: ms_def num_def lt_def eq_def gt_def js_gt_def)

text \<open>
  Claim C4 as stated fails on \<^verbatim>\<open>Duration.ms(NaN)\<close>: none of the three comparisons holds.
\<close>

theorem comparison_nan_counterexample:
  "\<not> lt \<lparr>milliseconds = NaN\<rparr> \<lparr>milliseconds = NaN\<rparr>
   \<and> \<not> eq \<lparr>milliseconds = NaN\<rparr> \<lparr>milliseconds = NaN\<rparr>
   \<and> \<not> gt \<lparr>milliseconds = NaN\<rparr> \<lparr>milliseconds = NaN\<rparr>"
  by (simp add: lt_def eq_def gt_def js_gt_def ms_def)




text \<open>
  Claim C6. \<open>div\<close> fails with \<open>DivisionByZero\<close> exactly when the divisor equals zero
  (either zero), and on every other divisor, NaN and the infinities included, it returns
  the duration of \<open>a.ms / divisor\<close>.
\<close>

theorem div_by_zero_only:
  "(div_by a divisor = Inl DivisionByZero \<longleftrightarrow> js_strict_eq divisor (num 0))
   \<and> (\<not> js_strict_eq divisor (num 0) \<longrightarrow>
        div_by a divisor = Inr \<lparr>milliseconds = js_div (ms a) divisor\<rparr>)
   \<and> div_by a NaN = Inr \<lparr>milliseconds = NaN\<rparr>
   \<and> div_by a (Infinity s) = Inr \<lparr>milliseconds = js_div (ms a) (Infinity s)\<rparr>"
  by (cases "ms a") (simp_all add: div_by_def ms_def num_def)

theorem div_by_zero_only_witness:
  "div_by \<lparr>milliseconds = num 6\<rparr> (num 0) = Inl DivisionByZero
   \<and> div_by \<lparr>milliseconds = num 6\<rparr> (Fin True 0) = Inl DivisionByZero
   \<and> \<not> js_strict_eq (num 3) (num 0)
   \<and> div_by \<lparr>milliseconds = num 6\<rparr> (num 3) = Inr \<lparr>milliseconds = num 2\<rparr>"
  using div_by_zero_only [of "\<lparr>milliseconds = num 6\<rparr>" "num 0"]
    div_by_zero_only [of "\<lparr>milliseconds = num 6\<rparr>" "Fin True 0"]
    div_by_zero_only [of "\<lparr>milliseconds = num 6\<rparr>" "num 3"]
  by (simp add: num_def ms_def mk_def round64_eval)


section \<open>Conversion\<close>





lemma round64_1: "round64 1 = Some 1"
  by (simp add: round64_eval)












section \<open>The scanner\<close>

lemma ways_suffix: "x \<in> set (ways r st) \<Longrightarrow> \<exists>p. fst st = p @ fst x"
proof (induction r st arbitrary: x rule: ways.induct)
  case (5 a b s m)
  then obtain y where y: "y \<in> set (ways a (s, m))" "x \<in> set (ways b y)"
    by auto
  from "5.IH"(1) [OF y(1)] "5.IH"(2) [OF y] show ?case
    by auto
next
  case (7 a s m)
  show ?case
  proof (cases "x = (s, m)")
    case True
    then show ?thesis by simp
  next
    case False
    with "7.prems" obtain y where y: "y \<in> set (ways a (s, m))"
      "length (fst y) < length s" "x \<in> set (ways (Star a) y)"
      by (auto simp: ways.simps(7) split: if_splits)
    from "7.IH"(1) [OF y(1)] "7.IH"(2) [OF y] show ?thesis
      by auto
  qed
qed (auto split: list.splits if_splits)

lemma ways_captures: "x \<in> set (ways r st) \<Longrightarrow> i \<notin> groups r \<Longrightarrow> snd x i = snd st i"
proof (induction r st arbitrary: x rule: ways.induct)
  case (5 a b s m)
  then obtain y where y: "y \<in> set (ways a (s, m))" "x \<in> set (ways b y)"
    by auto
  from "5.IH"(1) [OF y(1)] "5.IH"(2) [OF y] "5.prems"(2) show ?case
    by auto
next
  case (7 a s m)
  show ?case
  proof (cases "x = (s, m)")
    case True
    then show ?thesis by simp
  next
    case False
    with "7.prems" obtain y where y: "y \<in> set (ways a (s, m))"
      "length (fst y) < length s" "x \<in> set (ways (Star a) y)"
      by (auto simp: ways.simps(7) split: if_splits)
    from "7.IH"(1) [OF y(1)] "7.IH"(2) [OF y] "7.prems"(2) show ?thesis
      by auto
  qed
qed (auto split: list.splits if_splits)


lemma lower_of_canonical:
  assumes "canonicalize c = canonicalize l" and "0x61 \<le> l" and "l \<le> 0x7A"
  shows "(if 0x41 \<le> c \<and> c \<le> 0x5A then c + 0x20 else c) = l"
  using assms unfolding canonicalize_def
  by (auto split: if_splits; unat_arith)


lemma ways_lit:
  "x \<in> set (ways (lit cs) st) \<Longrightarrow>
     snd x = snd st \<and>
     (\<exists>p. fst st = p @ fst x \<and> map canonicalize p = map (\<lambda>c. canonicalize (of_char c)) cs)"
proof (induction cs arbitrary: st)
  case Nil
  then show ?case by (cases st) (simp add: lit_def)
next
  case (Cons c cs)
  obtain s m where st: "st = (s, m)" by (cases st)
  from Cons.prems obtain d r where s: "s = d # r"
    and d: "canonicalize d = canonicalize (of_char c)"
    and x: "x \<in> set (ways (lit cs) (r, m))"
    by (auto simp: lit_def st split: list.splits if_splits)
  from Cons.IH [OF x] obtain p where "snd x = m" "r = p @ fst x"
    "map canonicalize p = map (\<lambda>c. canonicalize (of_char c)) cs"
    by auto
  then show ?case
    using s d st by (intro conjI exI [of _ "d # p"]) simp_all
qed

lemma toLowerCase_label:
  "map canonicalize p = map (\<lambda>c. canonicalize (of_char c)) cs \<Longrightarrow>
   list_all (\<lambda>c. (0x61 :: 16 word) \<le> of_char c \<and> (of_char c :: 16 word) \<le> 0x7A) cs \<Longrightarrow>
   toLowerCase p = str cs"
proof (induction cs arbitrary: p)
  case Nil
  then show ?case by (simp add: toLowerCase_def str_def)
next
  case (Cons c cs)
  then obtain d r where p: "p = d # r" by (cases p) auto
  with Cons.prems have d: "canonicalize d = canonicalize (of_char c)"
    and r: "map canonicalize r = map (\<lambda>c. canonicalize (of_char c)) cs"
    by simp_all
  from Cons.prems(2) have c: "(0x61 :: 16 word) \<le> of_char c" "(of_char c :: 16 word) \<le> 0x7A"
    and cs: "list_all (\<lambda>c. (0x61 :: 16 word) \<le> of_char c \<and> (of_char c :: 16 word) \<le> 0x7A) cs"
    by simp_all
  from Cons.IH [OF r cs] lower_of_canonical [OF d c] show ?case
    by (simp add: p toLowerCase_def str_def)
qed

lemma ways_UNIT_LABEL:
  assumes "x \<in> set (ways UNIT_LABEL st)"
  shows "snd x = snd st \<and> (\<exists>p. fst st = p @ fst x \<and> toLowerCase p \<in> set UNIT_LABELS)"
proof -
  obtain s m where st: "st = (s, m)" by (cases st)
  from assms obtain cs where cs: "cs \<in> set [''ms'', ''s'', ''m'', ''h'', ''d'', ''w'', ''mo'', ''y'']"
    and x: "x \<in> set (ways (lit cs) st)"
    by (auto simp: UNIT_LABEL_def st)
  from cs have "list_all (\<lambda>c. (0x61 :: 16 word) \<le> of_char c \<and> (of_char c :: 16 word) \<le> 0x7A) cs"
    by auto
  with ways_lit [OF x] toLowerCase_label [of _ cs] cs show ?thesis
    unfolding UNIT_LABELS_def by (metis (no_types, lifting) image_eqI list.set_map)
qed


lemma ways_NUMERIC_VALUE:
  assumes "x \<in> set (ways NUMERIC_VALUE (s, m))"
  shows "snd x = m \<and> (\<exists>c p. s = c # p @ fst x \<and> is_digit c)"
proof -
  have "snd x i = m i" for i
    using ways_captures [OF assms, of i] by (simp add: NUMERIC_VALUE_def Plus_def Opt_def)
  then have m: "snd x = m" by auto
  from assms obtain y where y: "y \<in> set (ways (Plus Digit) (s, m))"
    and x: "x \<in> set (ways (Opt (Seq (Chr (of_char CHR ''.'')) (Plus Digit))) y)"
    by (auto simp: NUMERIC_VALUE_def)
  from y obtain c r where s: "s = c # r" and c: "is_digit c"
    and y': "y \<in> set (ways (Star Digit) (r, m))"
    by (auto simp: Plus_def split: list.splits if_splits)
  from ways_suffix [OF y'] ways_suffix [OF x] obtain p q where "r = p @ fst y" "fst y = q @ fst x"
    by auto
  then have "s = c # (p @ q) @ fst x" using s by simp
  with c m show ?thesis by blast
qed

lemma ways_Seq_iff:
  "x \<in> set (ways (Seq a b) st) \<longleftrightarrow> (\<exists>y \<in> set (ways a st). x \<in> set (ways b y))"
  by (cases st) auto

lemma ways_Group_iff:
  "x \<in> set (ways (Group i a) (s, m)) \<longleftrightarrow>
     (\<exists>y \<in> set (ways a (s, m)). x = (fst y, (snd y)(i \<mapsto> take (length s - length (fst y)) s)))"
  by auto

lemma ways_PARSE_REGEX:
  assumes "x \<in> set (ways PARSE_REGEX (s, m))"
  shows "\<exists>c v u. snd x 1 = Some (c # v) \<and> is_digit c \<and> snd x 2 = Some u \<and> toLowerCase u \<in> set UNIT_LABELS"
proof -
  from assms obtain y z where y: "y \<in> set (ways (Group 1 NUMERIC_VALUE) (s, m))"
    and z: "z \<in> set (ways (Star Space) y)"
    and x: "x \<in> set (ways (Group 2 UNIT_LABEL) z)"
    unfolding PARSE_REGEX_def ways_Seq_iff by blast
  from y obtain y' where y': "y' \<in> set (ways NUMERIC_VALUE (s, m))"
    and y_eq: "y = (fst y', (snd y')(1 \<mapsto> take (length s - length (fst y')) s))"
    unfolding ways_Group_iff by blast
  from ways_NUMERIC_VALUE [OF y'] obtain c p where "s = c # p @ fst y'" "is_digit c"
    by auto
  then have y1: "snd y 1 = Some (c # p)" and c: "is_digit c"
    using y_eq by simp_all
  have z1: "snd z 1 = Some (c # p)"
    using ways_captures [OF z, of 1] y1 by simp
  obtain zs zm where z_eq: "z = (zs, zm)" by (cases z)
  from x obtain x' where x': "x' \<in> set (ways UNIT_LABEL (zs, zm))"
    and x_eq: "x = (fst x', (snd x')(2 \<mapsto> take (length zs - length (fst x')) zs))"
    unfolding z_eq ways_Group_iff by blast
  from ways_UNIT_LABEL [OF x'] obtain u where u: "snd x' = zm" "zs = u @ fst x'"
    "toLowerCase u \<in> set UNIT_LABELS"
    by auto
  have "snd x 1 = Some (c # p)" "snd x 2 = Some u"
    using x_eq u z1 z_eq by simp_all
  with c u(3) show ?thesis by blast
qed

lemma round_half_even_nonneg: "0 \<le> x \<Longrightarrow> 0 \<le> round_half_even x"
  by (simp add: round_half_even_def Let_def)

lemma pow2_pos: "0 < pow2 k"
  by (simp add: pow2_def)

lemma round64_nonneg: "0 \<le> q \<Longrightarrow> round64 q = Some r \<Longrightarrow> 0 \<le> r"
  using round_half_even_nonneg [of "q / pow2 (max (ilog2 q - 52) (- 1074))"] pow2_pos [of "max (ilog2 q - 52) (- 1074)"]
  by (auto simp: round64_def Let_def split: if_splits)

lemma nonneg_mk: "0 \<le> q \<Longrightarrow> nonneg (mk False q)"
  by (auto simp: mk_def split: option.splits dest: round64_nonneg)

lemma nonneg_mul: "nonneg x \<Longrightarrow> 0 < u \<Longrightarrow> nonneg (js_mul x (Fin False u))"
  by (cases x) (auto simp: nonneg_mk)

lemma nonneg_add: "nonneg x \<Longrightarrow> nonneg y \<Longrightarrow> nonneg (js_add x y)"
  by (cases x; cases y) (auto simp: Let_def nonneg_mk)

lemma digit_not_space: "is_digit c \<Longrightarrow> \<not> is_white_space c"
  by (auto simp: is_digit_def is_white_space_def; unat_arith)

lemma pow10_pos: "0 < pow10 k"
  by (simp add: pow10_def)

lemma parse_unsigned_nonneg: "parse_unsigned s = Some (v, r) \<Longrightarrow> nonneg v"
proof -
  have "nonneg (mk False (of_nat n * pow10 k))" for n k
    using pow10_pos [of k] by (intro nonneg_mk mult_nonneg_nonneg) simp_all
  then show "parse_unsigned s = Some (v, r) \<Longrightarrow> nonneg v"
    by (auto simp: parse_unsigned_def Let_def split: if_splits prod.splits)
qed

lemma parse_unsigned_digit: "is_digit c \<Longrightarrow> parse_unsigned (c # v) \<noteq> None"
  by (auto simp: parse_unsigned_def Let_def split: prod.splits)

lemma nonneg_parseFloat:
  assumes "is_digit c"
  shows "nonneg (parseFloat (c # v))"
proof -
  from assms have c: "c \<noteq> of_char CHR ''+''" "c \<noteq> of_char CHR ''-''"
    by (auto simp: is_digit_def)
  from parse_unsigned_digit [OF assms] obtain x r where "parse_unsigned (c # v) = Some (x, r)"
    by fastforce
  with parse_unsigned_nonneg [OF this] show ?thesis
    using c assms by (simp add: parseFloat_def trimStart_def digit_not_space parse_signed_def)
qed


lemma unit_ratio:
  "u \<in> set UNIT_LABELS \<Longrightarrow> \<exists>r. 0 < r \<and> unitToMilliseconds u = Inr (Fin False r)"
  by (auto simp: UNIT_LABELS_def unitToMilliseconds_def ms_consts num_def str_def)

lemma callback_cases:
  assumes "caps 1 = Some (c # v)" and "is_digit c" and "caps 2 = Some u"
    and "toLowerCase u \<in> set UNIT_LABELS" and "nonneg (totalMilliseconds st)"
  shows "(\<exists>l. callback b caps st = Inl (DuplicateUnit l)) \<or>
         (\<exists>rep st'. callback b caps st = Inr (rep, st') \<and> nonneg (totalMilliseconds st'))"
proof -
  from unit_ratio [OF assms(4)] obtain r where r: "0 < r"
    "unitToMilliseconds (toLowerCase u) = Inr (Fin False r)"
    by auto
  have "nonneg (js_add (totalMilliseconds st) (js_mul (parseFloat (c # v)) (Fin False r)))"
    using assms(5) nonneg_parseFloat [OF assms(2)] r(1) by (intro nonneg_add nonneg_mul)
  then show ?thesis
    using assms(1,3) r(2) by (simp add: callback_def Let_def)
qed

lemma replace_loop_cases:
  "nonneg (totalMilliseconds st) \<Longrightarrow>
     (\<exists>l. replace_loop b s st = Inl (DuplicateUnit l)) \<or>
     (\<exists>out st'. replace_loop b s st = Inr (out, st') \<and> nonneg (totalMilliseconds st'))"
proof (induction b s st rule: replace_loop.induct)
  case (1 b s st)
  note unfold = replace_loop.simps [of b s st]
  show ?case
  proof (cases "ways PARSE_REGEX (s, Map.empty)")
    case Nil
    show ?thesis
    proof (cases s)
      case Nil': Nil
      have "replace_loop b s st = Inr ([], st)"
        using unfold Nil Nil' by simp
      then show ?thesis
        using "1.prems" by simp
    next
      case (Cons c cs)
      have "replace_loop b s st =
          (case replace_loop b cs st of Inl e \<Rightarrow> Inl e | Inr (out, st') \<Rightarrow> Inr (c # out, st'))"
        using unfold Nil Cons by simp
      with "1.IH"(1) [OF Nil Cons "1.prems"] show ?thesis
        by auto
    qed
  next
    case (Cons x other)
    obtain rest caps where x: "x = (rest, caps)" by (cases x)
    have "x \<in> set (ways PARSE_REGEX (s, Map.empty))"
      using Cons by simp
    from ways_PARSE_REGEX [OF this] obtain c v u where caps: "caps 1 = Some (c # v)"
      "is_digit c" "caps 2 = Some u" "toLowerCase u \<in> set UNIT_LABELS"
      using x by auto
    from callback_cases [OF caps "1.prems", of b]
    consider l where "callback b caps st = Inl (DuplicateUnit l)"
      | rep st' where "callback b caps st = Inr (rep, st')" "nonneg (totalMilliseconds st')"
      by blast
    then show ?thesis
    proof cases
      case 1
      have "replace_loop b s st = Inl (DuplicateUnit l)"
        using unfold Cons x 1 by simp
      then show ?thesis by simp
    next
      case 2
      show ?thesis
      proof (cases "length rest < length s")
        case True
        have "replace_loop b s st =
            (case replace_loop b rest st' of Inl e \<Rightarrow> Inl e
             | Inr (out, st'') \<Rightarrow> Inr (rep @ out, st''))"
          using unfold Cons x 2(1) True by simp
        with "1.IH"(2) [OF Cons x [symmetric] 2(1) refl True 2(2)] show ?thesis
          by auto
      next
        case False
        show ?thesis
        proof (cases s)
          case Nil
          have "replace_loop b s st = Inr (rep, st')"
            using unfold Cons x 2(1) False Nil by simp
          then show ?thesis
            using 2(2) by simp
        next
          case s: (Cons c cs)
          have "replace_loop b s st =
              (case replace_loop b cs st' of Inl e \<Rightarrow> Inl e
               | Inr (out, st'') \<Rightarrow> Inr (rep @ c # out, st''))"
            using unfold Cons x 2(1) False s by simp
          with "1.IH"(3) [OF Cons x [symmetric] 2(1) refl False s 2(2)] show ?thesis
            by auto
        qed
      qed
    qed
  qed
qed

lemma nonneg_ge_zero: "nonneg x \<Longrightarrow> js_ge x (num 0)"
  by (cases x) (auto simp: js_ge_def num_def)

lemma parse_cases:
  "(\<exists>l. parse input options = Inl (DuplicateUnit l)) \<or> parse input options = Inl EmptyInput
   \<or> parse input options = Inl NoTokensFound
   \<or> (\<exists>r. parse input options = Inl (UnexpectedTrailingInput r))
   \<or> (\<exists>d. parse input options = Inr d \<and> nonneg (milliseconds d))"
proof -
  let ?b = "case strict options of None \<Rightarrow> True | Some b \<Rightarrow> b"
  let ?st = "\<lparr>matched = False, seenUnits = {}, totalMilliseconds = num 0\<rparr>"
  have "nonneg (totalMilliseconds ?st)"
    by (simp add: num_def)
  from replace_loop_cases [OF this, of ?b input]
  consider l where "replace_loop ?b input ?st = Inl (DuplicateUnit l)"
    | out st' where "replace_loop ?b input ?st = Inr (out, st')" "nonneg (totalMilliseconds st')"
    by blast
  then show ?thesis
    by cases (simp_all add: parse_def Let_def)
qed

text \<open>
  Claim C8. For every input, every way in which the pattern matches captures a unit label
  that, in lower case, is one of \<open>ms\<close>, \<open>s\<close>, \<open>m\<close>, \<open>h\<close>, \<open>d\<close>, \<open>w\<close>,
  \<open>mo\<close>, \<open>y\<close>; so \<open>parse\<close> never fails with \<open>UnsupportedUnit\<close>.
\<close>

theorem parse_never_unsupported_unit:
  "parse input options \<noteq> Inl (UnsupportedUnit u) \<and>
   (\<forall>x \<in> set (ways PARSE_REGEX (s, Map.empty)).
      \<exists>l. snd x 2 = Some l \<and> toLowerCase l \<in> set UNIT_LABELS)"
proof
  show "parse input options \<noteq> Inl (UnsupportedUnit u)"
    using parse_cases [of input options] by auto
next
  show "\<forall>x \<in> set (ways PARSE_REGEX (s, Map.empty)).
      \<exists>l. snd x 2 = Some l \<and> toLowerCase l \<in> set UNIT_LABELS"
    using ways_PARSE_REGEX by blast
qed

text \<open>
  Claim C9. Whenever \<open>parse\<close> succeeds, the millisecond value of the duration it
  returns is at least zero (plus infinity included): it is never negative and never NaN.
\<close>

theorem parse_nonnegative:
  assumes "parse input options = Inr d"
  shows "js_ge (ms d) (num 0)"
  using parse_cases [of input options] assms by (auto simp: ms_def nonneg_ge_zero)


section \<open>Evaluation of the scanner and the formatter\<close>

lemmas string_eval = str_def is_digit_def digit_val_def digits_val_def is_white_space_def
  trimStart_def trim_def toLowerCase_def

lemmas regex_eval = PARSE_REGEX_def NUMERIC_VALUE_def UNIT_LABEL_def Plus_def Opt_def lit_def
  canonicalize_def ways.simps(7)

text \<open>
  Claim C10. A duration whose value is NaN is formatted as the empty string.
\<close>

theorem format_NaN: "format (Duration_ms NaN) = []"
  by (simp add: format_def Duration_ms_def FORMAT_UNITS_def js_gt_def num_def str_def)

lemma ways_1h:
  "ways PARSE_REGEX (str ''1h'', Map.empty) = [([], [1 \<mapsto> str ''1'', 2 \<mapsto> str ''h''])]"
  by (simp add: regex_eval string_eval)

lemma ways_1mo:
  "ways PARSE_REGEX (str ''1mo'', Map.empty) =
     [(str ''o'', [1 \<mapsto> str ''1'', 2 \<mapsto> str ''m'']),
      ([], [1 \<mapsto> str ''1'', 2 \<mapsto> str ''mo''])]"
  by (simp add: regex_eval string_eval)

lemma ways_o: "ways PARSE_REGEX (str ''o'', Map.empty) = []"
  by (simp add: regex_eval string_eval)

lemma ways_empty: "ways PARSE_REGEX ([], Map.empty) = []"
  by (simp add: regex_eval string_eval)

lemma parseFloat_1: "parseFloat (str ''1'') = num 1"
  by (simp add: parseFloat_def parse_signed_def parse_unsigned_def parse_exponent_def pow10_def
      mk_def num_def string_eval round64_1)

lemma callback_1m:
  "callback True [1 \<mapsto> str ''1'', 2 \<mapsto> str ''m'']
     \<lparr>matched = False, seenUnits = {}, totalMilliseconds = num 0\<rparr>
   = Inr (str '' '', \<lparr>matched = True, seenUnits = {str ''m''}, totalMilliseconds = num 60000\<rparr>)"
  by (simp add: callback_def parseFloat_1 unitToMilliseconds_def ms_consts toLowerCase_def num_def
      mk_def round64_eval)
     (simp add: str_def)

lemma callback_1h:
  "callback True [1 \<mapsto> str ''1'', 2 \<mapsto> str ''h'']
     \<lparr>matched = False, seenUnits = {}, totalMilliseconds = num 0\<rparr>
   = Inr (str '' '', \<lparr>matched = True, seenUnits = {str ''h''}, totalMilliseconds = num 3600000\<rparr>)"
  by (simp add: callback_def parseFloat_1 unitToMilliseconds_def ms_consts toLowerCase_def num_def
      mk_def round64_eval)
     (simp add: str_def)

lemma replace_loop_1mo:
  "replace_loop True (str ''1mo'') \<lparr>matched = False, seenUnits = {}, totalMilliseconds = num 0\<rparr>
   = Inr (str '' o'', \<lparr>matched = True, seenUnits = {str ''m''}, totalMilliseconds = num 60000\<rparr>)"
  apply (subst replace_loop.simps)
  apply (simp add: ways_1mo [unfolded str_def, simplified] callback_1m [unfolded str_def, simplified] str_def)
  apply (subst replace_loop.simps)
  apply (simp add: ways_o [unfolded str_def, simplified])
  apply (subst replace_loop.simps)
  apply (simp add: ways_empty)
  done

lemma replace_loop_1h:
  "replace_loop True (str ''1h'') \<lparr>matched = False, seenUnits = {}, totalMilliseconds = num 0\<rparr>
   = Inr (str '' '', \<lparr>matched = True, seenUnits = {str ''h''}, totalMilliseconds = num 3600000\<rparr>)"
  apply (subst replace_loop.simps)
  apply (simp add: ways_1h [unfolded str_def, simplified] callback_1h [unfolded str_def, simplified] str_def)
  apply (subst replace_loop.simps)
  apply (simp add: ways_empty)
  done

lemma parse_1h: "parse (str ''1h'') default_options = Inr \<lparr>milliseconds = num 3600000\<rparr>"
  by (simp add: parse_def default_options_def replace_loop_1h) (simp add: string_eval)

text \<open>
  Claim C1 does not hold of the code. In the alternation \<^verbatim>\<open>ms|s|m|h|d|w|mo|y\<close> the label
  \<^verbatim>\<open>m\<close> comes before \<^verbatim>\<open>mo\<close>, and nothing follows the group that could make the
  matcher backtrack; so \<^verbatim>\<open>1mo\<close> is scanned as one minute and a stray \<^verbatim>\<open>o\<close>, and with
  the default options \<open>parse\<close> fails on it.
\<close>

theorem parse_1mo_fails:
  "parse (str ''1mo'') default_options = Inl (UnexpectedTrailingInput (str ''o''))"
  by (simp add: parse_def default_options_def replace_loop_1mo) (simp add: string_eval)

theorem parse_never_unsupported_unit_witness:
  "parse (str ''1h'') default_options \<noteq> Inl (UnsupportedUnit (str ''h''))
   \<and> (\<exists>l. snd ([], [1 \<mapsto> str ''1'', 2 \<mapsto> str ''h'']) 2 = Some l \<and> toLowerCase l \<in> set UNIT_LABELS)"
  using parse_never_unsupported_unit [of "str ''1h''" default_options "str ''h''" "str ''1h''"]
  by (simp add: ways_1h)

theorem parse_nonnegative_witness:
  "parse (str ''1h'') default_options = Inr \<lparr>milliseconds = num 3600000\<rparr>
   \<and> js_ge (ms \<lparr>milliseconds = num 3600000\<rparr>) (num 0)"
  using parse_nonnegative [of "str ''1h''" default_options "\<lparr>milliseconds = num 3600000\<rparr>"] parse_1h
  by simp

section \<open>Rounding to the nearest double\<close>




lemma pow2_powi: "pow2 k = 2 powi k"
  by (simp add: pow2_def power_int_def inverse_eq_divide power_one_over)




lemma pow2_strict_mono: "a < b \<Longrightarrow> pow2 a < pow2 b"
  by (simp add: pow2_powi power_int_strict_increasing)


lemma pow2_nat: "pow2 (int n) = 2 ^ n"
  by (simp add: pow2_def)



























section \<open>Decimal digits and the shortest rendering\<close>


















lemma pow10_nat: "pow10 (int n) = 10 ^ n"
  by (simp add: pow10_def)


































section \<open>The formatter\<close>





















end
